theory Spec2Isabelle
  imports Main "HOL-Library.Sublist"
begin

section \<open>Data model: the tables of the admin-system migration\<close>

text \<open>
  The migration creates five tables (\<open>admin_users\<close>, \<open>admin_permissions\<close>,
  \<open>admin_user_permissions\<close>, \<open>system_settings\<close>, \<open>audit_logs\<close>) and attaches the audit
  trigger to \<open>admin_users\<close> and to the three domain tables \<open>panchayaths\<close>, \<open>agents\<close> and
  \<open>management_teams\<close>. A row is a record of its columns; a nullable column is an
  \<open>option\<close>. Identifiers are strings, instants (\<open>timestamptz\<close>) are integers.
  The surrogate \<open>id\<close> columns of \<open>admin_user_permissions\<close>, \<open>system_settings\<close> and
  \<open>audit_logs\<close> (filled by \<open>gen_random_uuid()\<close>, referenced by no foreign key and read by
  no logic) are left out; the \<open>id\<close> of \<open>admin_users\<close> and \<open>admin_permissions\<close>, which
  foreign keys point to, are kept.
\<close>

type_synonym uuid = string
type_synonym timestamptz = int

datatype jsonb =
    JNull
  | JBool bool
  | JNum int
  | JStr string
  | JArr "jsonb list"
  | JObj "(string \<times> jsonb) list"

record admin_user =
  au_id :: uuid
  username :: string
  email :: "string option"
  password_hash :: string
  role :: string
  is_active :: "bool option"
  last_login :: "timestamptz option"
  au_created_at :: timestamptz
  au_updated_at :: timestamptz

record admin_permission =
  ap_id :: uuid
  module :: string
  ap_action :: string
  ap_description :: "string option"

record admin_user_permission =
  up_user_id :: uuid
  up_permission_id :: uuid
  granted_by :: "uuid option"
  up_created_at :: timestamptz

record system_setting =
  setting_key :: string
  setting_value :: "jsonb option"
  description :: "string option"
  updated_by :: "uuid option"
  ss_created_at :: timestamptz
  ss_updated_at :: timestamptz

text \<open>
  \<open>audit_logs.table_name\<close> and \<open>audit_logs.record_id\<close> are nullable in the schema; their
  only writer, \<open>log_admin_action\<close>, always fills them and the client's \<open>AuditLog\<close>
  interface types them as \<open>string\<close>, so they are strings here.
\<close>

record audit_log =
  user_id :: "uuid option"
  action :: string
  table_name :: string
  record_id :: string
  old_values :: "jsonb option"
  new_values :: "jsonb option"
  ip_address :: "string option"
  user_agent :: "string option"
  created_at :: timestamptz

text \<open>
  A row of a table that carries the audit trigger, as the trigger sees it: its primary key
  as text (\<open>NEW.id::text\<close>) and its image under \<open>to_jsonb\<close>. The columns of the domain
  tables are not part of the migration, so their rows are kept in this form.
\<close>

record tracked_row =
  row_id :: uuid
  row_data :: jsonb

record db =
  admin_users :: "admin_user list"
  admin_permissions :: "admin_permission list"
  admin_user_permissions :: "admin_user_permission list"
  system_settings :: "system_setting list"
  audit_logs :: "audit_log list"
  panchayaths :: "tracked_row list"
  agents :: "tracked_row list"
  management_teams :: "tracked_row list"

datatype pg_role = anon | authenticated

text \<open>
  What a statement reads from its session: \<open>auth.uid()\<close>, the role the request runs as,
  \<open>now()\<close>, and the value \<open>gen_random_uuid()\<close> yields for the \<open>id\<close> default of
  \<open>admin_users\<close>.
\<close>

record ctx =
  auth_uid :: "uuid option"
  auth_role :: pg_role
  now :: timestamptz
  gen_random_uuid :: uuid

datatype pg_error =
    unique_violation
  | foreign_key_violation
  | check_violation
  | cardinality_violation

section \<open>The audit trigger\<close>

definition jsonb_text :: "string option \<Rightarrow> jsonb" where
  "jsonb_text s = (case s of None \<Rightarrow> JNull | Some t \<Rightarrow> JStr t)"

definition jsonb_bool :: "bool option \<Rightarrow> jsonb" where
  "jsonb_bool b = (case b of None \<Rightarrow> JNull | Some t \<Rightarrow> JBool t)"

definition jsonb_timestamptz :: "timestamptz option \<Rightarrow> jsonb" where
  "jsonb_timestamptz b = (case b of None \<Rightarrow> JNull | Some t \<Rightarrow> JNum t)"

definition to_jsonb_admin_user :: "admin_user \<Rightarrow> jsonb" where
  "to_jsonb_admin_user u = JObj
     [(''id'', JStr (au_id u)),
      (''username'', JStr (username u)),
      (''email'', jsonb_text (email u)),
      (''password_hash'', JStr (password_hash u)),
      (''role'', JStr (role u)),
      (''is_active'', jsonb_bool (is_active u)),
      (''last_login'', jsonb_timestamptz (last_login u)),
      (''created_at'', JNum (au_created_at u)),
      (''updated_at'', JNum (au_updated_at u))]"

definition tracked_admin_user :: "admin_user \<Rightarrow> tracked_row" where
  "tracked_admin_user u = \<lparr>row_id = au_id u, row_data = to_jsonb_admin_user u\<rparr>"

text \<open>
  A row-level trigger event: \<open>TG_OP\<close> with the \<open>OLD\<close> and \<open>NEW\<close> rows PostgreSQL binds
  for it (\<open>OLD\<close> is null on INSERT, \<open>NEW\<close> is null on DELETE).
\<close>

datatype tg_event =
    TgInsert tracked_row
  | TgUpdate tracked_row tracked_row
  | TgDelete tracked_row

fun TG_OP :: "tg_event \<Rightarrow> string" where
  "TG_OP (TgInsert n) = ''INSERT''"
| "TG_OP (TgUpdate ol n) = ''UPDATE''"
| "TG_OP (TgDelete ol) = ''DELETE''"

fun OLD :: "tg_event \<Rightarrow> tracked_row option" where
  "OLD (TgInsert n) = None"
| "OLD (TgUpdate ol n) = Some ol"
| "OLD (TgDelete ol) = Some ol"

fun NEW :: "tg_event \<Rightarrow> tracked_row option" where
  "NEW (TgInsert n) = Some n"
| "NEW (TgUpdate ol n) = Some n"
| "NEW (TgDelete ol) = None"

text \<open>\<open>COALESCE(NEW.id::text, OLD.id::text)\<close>: the key of \<open>NEW\<close> where there is one.\<close>

fun coalesce_id :: "tg_event \<Rightarrow> string" where
  "coalesce_id (TgInsert n) = row_id n"
| "coalesce_id (TgUpdate ol n) = row_id n"
| "coalesce_id (TgDelete ol) = row_id ol"

text \<open>
  The row \<open>log_admin_action\<close> builds for \<open>INSERT INTO audit_logs (user_id, action,
  table_name, record_id, old_values, new_values)\<close>. The two \<open>CASE\<close> expressions are the
  source's: \<open>old_values\<close> is \<open>to_jsonb(OLD)\<close> only \<open>WHEN TG_OP = 'DELETE'\<close>, \<open>new_values\<close> is
  \<open>to_jsonb(NEW)\<close> \<open>WHEN TG_OP = 'INSERT' OR TG_OP = 'UPDATE'\<close>. The columns the statement
  does not name take their defaults (\<open>created_at\<close> is \<open>now()\<close>, the others null).
\<close>

definition log_admin_action_values :: "ctx \<Rightarrow> string \<Rightarrow> tg_event \<Rightarrow> audit_log" where
  "log_admin_action_values c tg_table_name e =
     \<lparr>user_id = auth_uid c,
      action = TG_OP e,
      table_name = tg_table_name,
      record_id = coalesce_id e,
      old_values = (if TG_OP e = ''DELETE'' then map_option row_data (OLD e) else None),
      new_values = (if TG_OP e = ''INSERT'' \<or> TG_OP e = ''UPDATE''
                    then map_option row_data (NEW e) else None),
      ip_address = None,
      user_agent = None,
      created_at = now c\<rparr>"

text \<open>
  The insert itself: \<open>audit_logs.user_id\<close> references \<open>admin_users(id)\<close>, so a non-null
  \<open>auth.uid()\<close> that is no row of \<open>admin_users\<close> is a foreign-key violation, which aborts
  the trigger and with it the statement that fired it. The value the function returns
  (\<open>COALESCE(NEW, OLD)\<close>) is ignored for an \<open>AFTER\<close> trigger. The function is not
  \<open>SECURITY DEFINER\<close>; the row-security check of its insert is part of the policies, not
  of this function.
\<close>

definition log_admin_action :: "ctx \<Rightarrow> string \<Rightarrow> tg_event \<Rightarrow> db \<Rightarrow> pg_error + db" where
  "log_admin_action c tg_table_name e d =
     (case auth_uid c of
        None \<Rightarrow> Inr (d\<lparr>audit_logs := audit_logs d @ [log_admin_action_values c tg_table_name e]\<rparr>)
      | Some u \<Rightarrow>
          if u \<in> set (map au_id (admin_users d))
          then Inr (d\<lparr>audit_logs := audit_logs d @ [log_admin_action_values c tg_table_name e]\<rparr>)
          else Inl foreign_key_violation)"

section \<open>Statements on the tables that carry the audit trigger\<close>

text \<open>
  A statement runs in one transaction: it returns either the database it commits or the
  error that aborts it, in which case nothing of it is kept (\<open>commit\<close> below). The model
  covers what the migration declares: defaults, the \<open>CHECK\<close>, \<open>UNIQUE\<close> and foreign-key
  constraints, the \<open>ON DELETE CASCADE\<close> of \<open>admin_user_permissions.user_id\<close>, the
  \<open>BEFORE UPDATE\<close> trigger \<open>update_updated_at_column\<close> and the \<open>AFTER INSERT OR UPDATE OR
  DELETE ... FOR EACH ROW\<close> trigger \<open>log_admin_action\<close>. An error raised by a constraint or
  inside a trigger aborts the statement that caused it. Row-level security is modelled on
  its own in the section on policies; statement execution here is what happens once the
  row-security checks are passed or bypassed.
\<close>

record admin_user_insert =
  ins_username :: string
  ins_email :: string
  ins_password_hash :: string
  ins_role :: string

text \<open>The columns an \<open>update(...)\<close> call names; \<open>None\<close> leaves the column as it is.\<close>

record admin_user_update =
  set_username :: "string option"
  set_email :: "string option"
  set_password_hash :: "string option"
  set_role :: "string option"
  set_is_active :: "bool option"

text \<open>The column defaults of \<open>admin_users\<close> for the columns an insert does not name.\<close>

definition new_admin_user :: "ctx \<Rightarrow> admin_user_insert \<Rightarrow> admin_user" where
  "new_admin_user c p =
     \<lparr>au_id = gen_random_uuid c,
      username = ins_username p,
      email = Some (ins_email p),
      password_hash = ins_password_hash p,
      role = ins_role p,
      is_active = Some True,
      last_login = None,
      au_created_at = now c,
      au_updated_at = now c\<rparr>"

definition apply_admin_user_update :: "admin_user_update \<Rightarrow> admin_user \<Rightarrow> admin_user" where
  "apply_admin_user_update p u =
     u\<lparr>username := (case set_username p of None \<Rightarrow> username u | Some v \<Rightarrow> v),
       email := (case set_email p of None \<Rightarrow> email u | Some v \<Rightarrow> Some v),
       password_hash := (case set_password_hash p of None \<Rightarrow> password_hash u | Some v \<Rightarrow> v),
       role := (case set_role p of None \<Rightarrow> role u | Some v \<Rightarrow> v),
       is_active := (case set_is_active p of None \<Rightarrow> is_active u | Some v \<Rightarrow> Some v)\<rparr>"

text \<open>\<open>update_updated_at_column\<close>: \<open>NEW.updated_at = now(); RETURN NEW\<close>.\<close>

definition update_updated_at_column :: "ctx \<Rightarrow> admin_user \<Rightarrow> admin_user" where
  "update_updated_at_column c n = n\<lparr>au_updated_at := now c\<rparr>"

text \<open>
  The constraints of \<open>admin_users\<close> on a row against the other rows of the table:
  \<open>CHECK (role IN ('super_admin', 'admin', 'local_admin'))\<close>, the primary key, \<open>username
  UNIQUE\<close> and \<open>email UNIQUE\<close> (null emails never collide).
\<close>

definition admin_user_violation :: "admin_user list \<Rightarrow> admin_user \<Rightarrow> pg_error option" where
  "admin_user_violation others n =
     (if role n \<notin> {''super_admin'', ''admin'', ''local_admin''} then Some check_violation
      else if au_id n \<in> set (map au_id others) then Some unique_violation
      else if username n \<in> set (map username others) then Some unique_violation
      else if email n \<noteq> None \<and> email n \<in> set (map email others) then Some unique_violation
      else None)"

definition insert_admin_user :: "ctx \<Rightarrow> db \<Rightarrow> admin_user_insert \<Rightarrow> pg_error + db" where
  "insert_admin_user c d p =
     (let n = new_admin_user c p in
      case admin_user_violation (admin_users d) n of
        Some e \<Rightarrow> Inl e
      | None \<Rightarrow>
          log_admin_action c ''admin_users'' (TgInsert (tracked_admin_user n))
            (d\<lparr>admin_users := admin_users d @ [n]\<rparr>))"

text \<open>
  \<open>update(...).eq('id', i)\<close>: \<open>id\<close> is the primary key, so at most one row matches; with no
  match the statement succeeds on zero rows and fires no row trigger.
\<close>

definition update_admin_user :: "ctx \<Rightarrow> db \<Rightarrow> uuid \<Rightarrow> admin_user_update \<Rightarrow> pg_error + db" where
  "update_admin_user c d i p =
     (case find (\<lambda>u. au_id u = i) (admin_users d) of
        None \<Rightarrow> Inr d
      | Some ol \<Rightarrow>
          (let n = update_updated_at_column c (apply_admin_user_update p ol) in
           case admin_user_violation (filter (\<lambda>u. au_id u \<noteq> i) (admin_users d)) n of
             Some e \<Rightarrow> Inl e
           | None \<Rightarrow>
               log_admin_action c ''admin_users''
                 (TgUpdate (tracked_admin_user ol) (tracked_admin_user n))
                 (d\<lparr>admin_users := map (\<lambda>u. if au_id u = i then n else u) (admin_users d)\<rparr>)))"

text \<open>
  The foreign keys onto \<open>admin_users(id)\<close> that have no \<open>ON DELETE\<close> action:
  \<open>admin_user_permissions.granted_by\<close>, \<open>system_settings.updated_by\<close> and
  \<open>audit_logs.user_id\<close>. A row still referenced cannot be deleted.
\<close>

definition admin_user_referenced :: "db \<Rightarrow> uuid \<Rightarrow> bool" where
  "admin_user_referenced d i =
     (Some i \<in> set (map granted_by (admin_user_permissions d)) \<or>
      Some i \<in> set (map updated_by (system_settings d)) \<or>
      Some i \<in> set (map user_id (audit_logs d)))"

definition delete_admin_user :: "ctx \<Rightarrow> db \<Rightarrow> uuid \<Rightarrow> pg_error + db" where
  "delete_admin_user c d i =
     (case find (\<lambda>u. au_id u = i) (admin_users d) of
        None \<Rightarrow> Inr d
      | Some ol \<Rightarrow>
          (let d1 = d\<lparr>admin_users := filter (\<lambda>u. au_id u \<noteq> i) (admin_users d),
                      admin_user_permissions :=
                        filter (\<lambda>g. up_user_id g \<noteq> i) (admin_user_permissions d)\<rparr> in
           if admin_user_referenced d1 i then Inl foreign_key_violation
           else log_admin_action c ''admin_users'' (TgDelete (tracked_admin_user ol)) d1))"

text \<open>
  The three domain tables. Their definitions are not in the migration; the trigger needs
  only their \<open>id\<close>, so a statement on them is modelled on \<open>tracked_row\<close> with the primary
  key as the one constraint.
\<close>

datatype domain_table = Panchayaths | Agents | Management_teams

fun TG_TABLE_NAME :: "domain_table \<Rightarrow> string" where
  "TG_TABLE_NAME Panchayaths = ''panchayaths''"
| "TG_TABLE_NAME Agents = ''agents''"
| "TG_TABLE_NAME Management_teams = ''management_teams''"

fun domain_rows :: "domain_table \<Rightarrow> db \<Rightarrow> tracked_row list" where
  "domain_rows Panchayaths d = panchayaths d"
| "domain_rows Agents d = agents d"
| "domain_rows Management_teams d = management_teams d"

fun set_domain_rows :: "domain_table \<Rightarrow> tracked_row list \<Rightarrow> db \<Rightarrow> db" where
  "set_domain_rows Panchayaths rs d = d\<lparr>panchayaths := rs\<rparr>"
| "set_domain_rows Agents rs d = d\<lparr>agents := rs\<rparr>"
| "set_domain_rows Management_teams rs d = d\<lparr>management_teams := rs\<rparr>"

definition insert_row :: "ctx \<Rightarrow> db \<Rightarrow> domain_table \<Rightarrow> tracked_row \<Rightarrow> pg_error + db" where
  "insert_row c d t n =
     (if row_id n \<in> set (map row_id (domain_rows t d)) then Inl unique_violation
      else log_admin_action c (TG_TABLE_NAME t) (TgInsert n)
             (set_domain_rows t (domain_rows t d @ [n]) d))"

definition update_row :: "ctx \<Rightarrow> db \<Rightarrow> domain_table \<Rightarrow> uuid \<Rightarrow> jsonb \<Rightarrow> pg_error + db" where
  "update_row c d t i v =
     (case find (\<lambda>r. row_id r = i) (domain_rows t d) of
        None \<Rightarrow> Inr d
      | Some ol \<Rightarrow>
          log_admin_action c (TG_TABLE_NAME t) (TgUpdate ol (ol\<lparr>row_data := v\<rparr>))
            (set_domain_rows t
               (map (\<lambda>r. if row_id r = i then ol\<lparr>row_data := v\<rparr> else r) (domain_rows t d)) d))"

definition delete_row :: "ctx \<Rightarrow> db \<Rightarrow> domain_table \<Rightarrow> uuid \<Rightarrow> pg_error + db" where
  "delete_row c d t i =
     (case find (\<lambda>r. row_id r = i) (domain_rows t d) of
        None \<Rightarrow> Inr d
      | Some ol \<Rightarrow>
          log_admin_action c (TG_TABLE_NAME t) (TgDelete ol)
            (set_domain_rows t (filter (\<lambda>r. row_id r \<noteq> i) (domain_rows t d)) d))"

datatype stmt =
    InsertAdminUser admin_user_insert
  | UpdateAdminUser uuid admin_user_update
  | DeleteAdminUser uuid
  | InsertRow domain_table tracked_row
  | UpdateRow domain_table uuid jsonb
  | DeleteRow domain_table uuid

fun exec :: "ctx \<Rightarrow> db \<Rightarrow> stmt \<Rightarrow> pg_error + db" where
  "exec c d (InsertAdminUser p) = insert_admin_user c d p"
| "exec c d (UpdateAdminUser i p) = update_admin_user c d i p"
| "exec c d (DeleteAdminUser i) = delete_admin_user c d i"
| "exec c d (InsertRow t n) = insert_row c d t n"
| "exec c d (UpdateRow t i v) = update_row c d t i v"
| "exec c d (DeleteRow t i) = delete_row c d t i"

text \<open>What the database holds after the statement: an aborted statement leaves it as it was.\<close>

definition commit :: "ctx \<Rightarrow> db \<Rightarrow> stmt \<Rightarrow> db" where
  "commit c d s = (case exec c d s of Inl e \<Rightarrow> d | Inr d' \<Rightarrow> d')"


fun stmt_op :: "stmt \<Rightarrow> string" where
  "stmt_op (InsertAdminUser p) = ''INSERT''"
| "stmt_op (UpdateAdminUser i p) = ''UPDATE''"
| "stmt_op (DeleteAdminUser i) = ''DELETE''"
| "stmt_op (InsertRow t n) = ''INSERT''"
| "stmt_op (UpdateRow t i v) = ''UPDATE''"
| "stmt_op (DeleteRow t i) = ''DELETE''"

fun stmt_record_id :: "ctx \<Rightarrow> stmt \<Rightarrow> string" where
  "stmt_record_id c (InsertAdminUser p) = gen_random_uuid c"
| "stmt_record_id c (UpdateAdminUser i p) = i"
| "stmt_record_id c (DeleteAdminUser i) = i"
| "stmt_record_id c (InsertRow t n) = row_id n"
| "stmt_record_id c (UpdateRow t i v) = i"
| "stmt_record_id c (DeleteRow t i) = i"

fun touches :: "db \<Rightarrow> stmt \<Rightarrow> bool" where
  "touches d (InsertAdminUser p) = True"
| "touches d (UpdateAdminUser i p) = (i \<in> set (map au_id (admin_users d)))"
| "touches d (DeleteAdminUser i) = (i \<in> set (map au_id (admin_users d)))"
| "touches d (InsertRow t n) = True"
| "touches d (UpdateRow t i v) = (i \<in> set (map row_id (domain_rows t d)))"
| "touches d (DeleteRow t i) = (i \<in> set (map row_id (domain_rows t d)))"


definition audit_key :: "audit_log \<Rightarrow> string \<times> string \<times> string" where
  "audit_key r = (table_name r, action r, record_id r)"



text \<open>The rows of the table a statement addresses, as the trigger sees them.\<close>

fun stmt_rows :: "db \<Rightarrow> stmt \<Rightarrow> tracked_row list" where
  "stmt_rows d (InsertAdminUser p) = map tracked_admin_user (admin_users d)"
| "stmt_rows d (UpdateAdminUser i p) = map tracked_admin_user (admin_users d)"
| "stmt_rows d (DeleteAdminUser i) = map tracked_admin_user (admin_users d)"
| "stmt_rows d (InsertRow t n) = domain_rows t d"
| "stmt_rows d (UpdateRow t i v) = domain_rows t d"
| "stmt_rows d (DeleteRow t i) = domain_rows t d"

section \<open>The admin-user form (\<open>AdminUserManagement.handleSubmit\<close>)\<close>

record formData =
  fd_username :: string
  fd_email :: string
  fd_password :: string
  fd_role :: string

datatype toast = ToastSuccess string | ToastError string

text \<open>
  \<open>handleSubmit\<close> with the form and \<open>editingUser\<close> (the key of the user being edited, the
  only field of it the function reads; \<open>None\<close> for the create dialog). An empty string is
  falsy. The value written to \<open>password_hash\<close> is the template literal
  \<open>`$2b$10$${formData.password}`\<close>. It returns the database after the call and the toast.
\<close>

definition handleSubmit :: "ctx \<Rightarrow> db \<Rightarrow> uuid option \<Rightarrow> formData \<Rightarrow> db \<times> toast" where
  "handleSubmit c d editingUser f =
     (if fd_username f = [] \<or> fd_email f = [] \<or> (editingUser = None \<and> fd_password f = [])
      then (d, ToastError ''Please fill in all required fields'')
      else
        (case editingUser of
           Some i \<Rightarrow>
             (case update_admin_user c d i
                     \<lparr>set_username = Some (fd_username f),
                      set_email = Some (fd_email f),
                      set_password_hash =
                        (if fd_password f \<noteq> [] then Some (''$2b$10$'' @ fd_password f) else None),
                      set_role = Some (fd_role f),
                      set_is_active = None\<rparr> of
                Inl e \<Rightarrow> (d, ToastError ''Failed to save user'')
              | Inr d' \<Rightarrow> (d', ToastSuccess ''User updated successfully''))
         | None \<Rightarrow>
             (case insert_admin_user c d
                     \<lparr>ins_username = fd_username f,
                      ins_email = fd_email f,
                      ins_password_hash = ''$2b$10$'' @ fd_password f,
                      ins_role = fd_role f\<rparr> of
                Inl e \<Rightarrow> (d, ToastError ''Failed to save user'')
              | Inr d' \<Rightarrow> (d', ToastSuccess ''User created successfully''))))"

section \<open>Row-level security policies\<close>


datatype command = SELECT | INSERT | UPDATE | DELETE








section \<open>Grants (\<open>admin_user_permissions\<close> and \<open>saveUserPermissions\<close>)\<close>

text \<open>
  \<open>delete().eq('user_id', i)\<close> on \<open>admin_user_permissions\<close>: nothing references the table
  and it carries no trigger, so the statement has no constraint to violate.
\<close>

definition delete_user_permissions :: "db \<Rightarrow> uuid \<Rightarrow> db" where
  "delete_user_permissions d i =
     d\<lparr>admin_user_permissions := filter (\<lambda>g. up_user_id g \<noteq> i) (admin_user_permissions d)\<rparr>"

record user_permission_insert =
  upi_user_id :: uuid
  upi_permission_id :: uuid

definition grant_key :: "admin_user_permission \<Rightarrow> uuid \<times> uuid" where
  "grant_key g = (up_user_id g, up_permission_id g)"

text \<open>
  One \<open>insert([...])\<close> call is one statement: the rows go in one after the other and the
  first violation aborts all of them. The constraints are the two foreign keys and
  \<open>UNIQUE(user_id, permission_id)\<close>; \<open>granted_by\<close> is not named by the caller and stays
  null, \<open>created_at\<close> defaults to \<open>now()\<close>.
\<close>

definition new_permission_row :: "ctx \<Rightarrow> user_permission_insert \<Rightarrow> admin_user_permission" where
  "new_permission_row c p =
     \<lparr>up_user_id = upi_user_id p, up_permission_id = upi_permission_id p,
      granted_by = None, up_created_at = now c\<rparr>"

fun insert_permission_rows ::
  "ctx \<Rightarrow> db \<Rightarrow> admin_user_permission list \<Rightarrow> user_permission_insert list \<Rightarrow>
   pg_error + admin_user_permission list" where
  "insert_permission_rows c d rows [] = Inr rows"
| "insert_permission_rows c d rows (p # ps) =
     (if upi_user_id p \<notin> set (map au_id (admin_users d)) \<or>
         upi_permission_id p \<notin> set (map ap_id (admin_permissions d))
      then Inl foreign_key_violation
      else if (upi_user_id p, upi_permission_id p) \<in> set (map grant_key rows)
      then Inl unique_violation
      else insert_permission_rows c d (rows @ [new_permission_row c p]) ps)"

definition insert_user_permissions ::
  "ctx \<Rightarrow> db \<Rightarrow> user_permission_insert list \<Rightarrow> pg_error + db" where
  "insert_user_permissions c d ps =
     (case insert_permission_rows c d (admin_user_permissions d) ps of
        Inl e \<Rightarrow> Inl e
      | Inr rows \<Rightarrow> Inr (d\<lparr>admin_user_permissions := rows\<rparr>))"

text \<open>
  \<open>saveUserPermissions\<close> with \<open>selectedUser\<close> (its key; \<open>None\<close> for null) and
  \<open>selectedPermissions\<close>. The delete and the insert are two awaited calls, each a request
  of its own, so each commits by itself. The function returns the databases it commits,
  in order, and the toast. The result of the delete call is not inspected by the source.
\<close>

definition saveUserPermissions ::
  "ctx \<Rightarrow> db \<Rightarrow> uuid option \<Rightarrow> uuid list \<Rightarrow> db list \<times> toast option" where
  "saveUserPermissions c d selectedUser selectedPermissions =
     (case selectedUser of
        None \<Rightarrow> ([], None)
      | Some i \<Rightarrow>
          (let d1 = delete_user_permissions d i in
           if selectedPermissions \<noteq> [] then
             (case insert_user_permissions c d1
                     (map (\<lambda>permId. \<lparr>upi_user_id = i, upi_permission_id = permId\<rparr>)
                        selectedPermissions) of
                Inl e \<Rightarrow> ([d1], Some (ToastError ''Failed to save permissions''))
              | Inr d2 \<Rightarrow> ([d1, d2], Some (ToastSuccess ''Permissions updated successfully'')))
           else ([d1], Some (ToastSuccess ''Permissions updated successfully''))))"

text \<open>The capabilities an identity holds, and how many grants a pair has.\<close>

definition grants_of :: "db \<Rightarrow> uuid \<Rightarrow> uuid list" where
  "grants_of d i = map up_permission_id (filter (\<lambda>g. up_user_id g = i) (admin_user_permissions d))"

definition grant_count :: "db \<Rightarrow> uuid \<Rightarrow> uuid \<Rightarrow> nat" where
  "grant_count d i p = length (filter (\<lambda>g. grant_key g = (i, p)) (admin_user_permissions d))"

section \<open>Settings (\<open>system_settings\<close> and \<open>SystemSettings\<close>)\<close>

text \<open>The object the client passes to \<open>upsert\<close>: the three columns it names.\<close>

record setting_upsert =
  us_setting_key :: string
  us_setting_value :: jsonb
  us_updated_at :: timestamptz

text \<open>
  \<open>upsert(row, {onConflict: 'setting_key'})\<close> is \<open>INSERT ... ON CONFLICT (setting_key) DO
  UPDATE SET\<close> the named columns. Without a row of that key the row is inserted, the
  columns it does not name taking their defaults. With one, the named columns are
  overwritten and the \<open>BEFORE UPDATE\<close> trigger \<open>update_updated_at_column\<close> then sets
  \<open>updated_at\<close> to \<open>now()\<close>; \<open>description\<close>, \<open>updated_by\<close> and \<open>created_at\<close> are not named
  and stay.
\<close>

definition do_update_set :: "setting_upsert \<Rightarrow> system_setting \<Rightarrow> system_setting" where
  "do_update_set u s =
     s\<lparr>setting_key := us_setting_key u,
       setting_value := Some (us_setting_value u),
       ss_updated_at := us_updated_at u\<rparr>"

definition update_updated_at_column_setting :: "ctx \<Rightarrow> system_setting \<Rightarrow> system_setting" where
  "update_updated_at_column_setting c n = n\<lparr>ss_updated_at := now c\<rparr>"











section \<open>The audit-log viewer (\<open>AuditLogs\<close>)\<close>

text \<open>
  A fetched row: the columns of \<open>audit_logs\<close> and the embedded \<open>admin_users (username)\<close>,
  which is null when \<open>user_id\<close> is null or names no row. \<open>created_at\<close> stands for the
  instant \<open>new Date(log.created_at)\<close> denotes.
\<close>

record AuditLog = audit_log +
  admin_users_username :: "string option"

definition embed_admin_users :: "admin_user list \<Rightarrow> audit_log \<Rightarrow> AuditLog" where
  "embed_admin_users us l =
     audit_log.extend l
       (AuditLog.fields
          (case user_id l of
             None \<Rightarrow> None
           | Some u \<Rightarrow> map_option username (find (\<lambda>a. au_id a = u) us)))"

text \<open>\<open>select('*, admin_users (username)')\<close> over the whole table.\<close>

definition select_audit_logs :: "db \<Rightarrow> AuditLog list" where
  "select_audit_logs d = map (embed_admin_users (admin_users d)) (audit_logs d)"

text \<open>
  \<open>.order('created_at', { ascending: false })\<close>. The order among rows of the same instant
  is not fixed by the query; the model takes one.
\<close>

definition order_created_at_desc :: "AuditLog list \<Rightarrow> AuditLog list" where
  "order_created_at_desc ls = rev (sort_key created_at ls)"

text \<open>\<open>fetchAuditLogs\<close>: the ordered query with \<open>.limit(1000)\<close>; its result becomes \<open>logs\<close>.\<close>

definition fetchAuditLogs :: "db \<Rightarrow> AuditLog list" where
  "fetchAuditLogs d = take 1000 (order_created_at_desc (select_audit_logs d))"

record filters =
  flt_action :: string
  flt_table :: string
  flt_user :: string
  dateFrom :: "timestamptz option"
  dateTo :: "timestamptz option"
  search :: string

text \<open>\<open>toLowerCase\<close> on the ASCII letters, and \<open>String.prototype.includes\<close>.\<close>

definition lower_char :: "char \<Rightarrow> char" where
  "lower_char ch =
     (let n = (of_char ch :: nat) in if 65 \<le> n \<and> n \<le> 90 then char_of (n + 32) else ch)"

definition toLowerCase :: "string \<Rightarrow> string" where
  "toLowerCase s = map lower_char s"

definition str_includes :: "string \<Rightarrow> string \<Rightarrow> bool" where
  "str_includes s t = sublist t s"

text \<open>\<open>log.admin_users?.username.toLowerCase().includes(t)\<close>: undefined, so falsy, without a user.\<close>

definition username_includes :: "AuditLog \<Rightarrow> string \<Rightarrow> bool" where
  "username_includes log t =
     (case admin_users_username log of
        None \<Rightarrow> False
      | Some n \<Rightarrow> str_includes (toLowerCase n) t)"

text \<open>
  \<open>applyFilters\<close>: the six filters in the source's order, each applied when its field is
  truthy (a non-empty string, a date that is set). The result becomes \<open>filteredLogs\<close>.
\<close>

definition applyFilters :: "AuditLog list \<Rightarrow> filters \<Rightarrow> AuditLog list" where
  "applyFilters logs f =
     (let filtered = logs;
          filtered = (if flt_action f \<noteq> []
                      then filter (\<lambda>log. action log = flt_action f) filtered else filtered);
          filtered = (if flt_table f \<noteq> []
                      then filter (\<lambda>log. table_name log = flt_table f) filtered else filtered);
          filtered = (if flt_user f \<noteq> []
                      then filter (\<lambda>log. username_includes log (toLowerCase (flt_user f))) filtered
                      else filtered);
          filtered = (case dateFrom f of
                        None \<Rightarrow> filtered
                      | Some a \<Rightarrow> filter (\<lambda>log. created_at log \<ge> a) filtered);
          filtered = (case dateTo f of
                        None \<Rightarrow> filtered
                      | Some b \<Rightarrow> filter (\<lambda>log. created_at log \<le> b) filtered);
          filtered = (if search f \<noteq> []
                      then (let searchTerm = toLowerCase (search f) in
                            filter (\<lambda>log.
                               str_includes (toLowerCase (action log)) searchTerm \<or>
                               str_includes (toLowerCase (table_name log)) searchTerm \<or>
                               str_includes (toLowerCase (record_id log)) searchTerm \<or>
                               username_includes log searchTerm) filtered)
                      else filtered)
      in filtered)"

text \<open>\<open>Array.prototype.join\<close>.\<close>

fun join :: "string \<Rightarrow> string list \<Rightarrow> string" where
  "join sep [] = []"
| "join sep [x] = x"
| "join sep (x # y # ys) = x @ sep @ join sep (y # ys)"

text \<open>
  \<open>exportLogs\<close>: the header and one line per element of \<open>filteredLogs\<close>; \<open>toISOString\<close> is
  the rendering of an instant, taken as a parameter. \<open>a || b\<close> yields \<open>b\<close> for a missing or
  empty \<open>a\<close>.
\<close>

definition csv_line :: "(timestamptz \<Rightarrow> string) \<Rightarrow> AuditLog \<Rightarrow> string" where
  "csv_line toISOString log =
     join '',''
       [toISOString (created_at log),
        (case admin_users_username log of
           None \<Rightarrow> ''Unknown''
         | Some n \<Rightarrow> if n = [] then ''Unknown'' else n),
        action log,
        table_name log,
        record_id log,
        (case ip_address log of None \<Rightarrow> [] | Some a \<Rightarrow> a)]"

definition exportLogs :: "(timestamptz \<Rightarrow> string) \<Rightarrow> AuditLog list \<Rightarrow> string" where
  "exportLogs toISOString filteredLogs =
     join [CHR 0x0A]
       (join '','' [''Timestamp'', ''User'', ''Action'', ''Table'', ''Record ID'', ''IP Address'']
        # map (csv_line toISOString) filteredLogs)"

text \<open>
  The closed interval of a date filter, and the filter state with the two dates set and
  every other field empty.
\<close>

definition in_date_range :: "timestamptz \<Rightarrow> timestamptz \<Rightarrow> AuditLog \<Rightarrow> bool" where
  "in_date_range a b log = (a \<le> created_at log \<and> created_at log \<le> b)"

definition date_filters :: "timestamptz \<Rightarrow> timestamptz \<Rightarrow> filters" where
  "date_filters a b =
     \<lparr>flt_action = [], flt_table = [], flt_user = [], dateFrom = Some a, dateTo = Some b,
      search = []\<rparr>"

section \<open>Example states\<close>

definition superadmin :: admin_user where
  "superadmin =
     \<lparr>au_id = ''u1'', username = ''superadmin'', email = Some ''super@admin.com'',
      password_hash = ''$2b$10$example_hash_for_password123'', role = ''super_admin'',
      is_active = Some True, last_login = None, au_created_at = 0, au_updated_at = 0\<rparr>"

definition admin1 :: admin_user where
  "admin1 =
     \<lparr>au_id = ''u2'', username = ''admin1'', email = Some ''admin1@system.com'',
      password_hash = ''$2b$10$example_hash_for_admin123'', role = ''admin'',
      is_active = Some True, last_login = None, au_created_at = 0, au_updated_at = 0\<rparr>"

definition db0 :: db where
  "db0 =
     \<lparr>admin_users = [superadmin, admin1],
      admin_permissions =
        [\<lparr>ap_id = ''p1'', module = ''users'', ap_action = ''create'',
          ap_description = Some ''Create new users''\<rparr>,
         \<lparr>ap_id = ''p2'', module = ''users'', ap_action = ''read'',
          ap_description = Some ''View user information''\<rparr>],
      admin_user_permissions = [],
      system_settings = [],
      audit_logs = [],
      panchayaths = [],
      agents = [],
      management_teams = []\<rparr>"

definition ctx_superadmin :: ctx where
  "ctx_superadmin =
     \<lparr>auth_uid = Some ''u1'', auth_role = authenticated, now = 100, gen_random_uuid = ''u9''\<rparr>"

definition ctx_unknown :: ctx where
  "ctx_unknown =
     \<lparr>auth_uid = Some ''nobody'', auth_role = authenticated, now = 100, gen_random_uuid = ''u9''\<rparr>"

definition insert_thiruvali :: stmt where
  "insert_thiruvali =
     InsertRow Panchayaths \<lparr>row_id = ''t1'', row_data = JObj [(''name'', JStr ''Thiruvali'')]\<rparr>"

definition form_alice :: formData where
  "form_alice =
     \<lparr>fd_username = ''alice'', fd_email = ''alice@example.com'',
      fd_password = ''secret'', fd_role = ''admin''\<rparr>"

text \<open>The payload of \<open>handleToggleStatus\<close> for an active user: \<open>{ is_active: false }\<close>.\<close>

definition deactivate :: admin_user_update where
  "deactivate =
     \<lparr>set_username = None, set_email = None, set_password_hash = None,
      set_role = None, set_is_active = Some False\<rparr>"



text \<open>An audit record written at instant \<open>n\<close>, and tables of 1001 and of three of them.\<close>

definition bulk_log :: "nat \<Rightarrow> audit_log" where
  "bulk_log n =
     \<lparr>user_id = Some ''u1'', action = ''INSERT'', table_name = ''agents'', record_id = ''a1'',
      old_values = None, new_values = None, ip_address = None, user_agent = None,
      created_at = int n\<rparr>"

definition db_bulk :: db where
  "db_bulk = db0\<lparr>audit_logs := map bulk_log [0..<1001]\<rparr>"

definition db_three :: db where
  "db_three = db0\<lparr>audit_logs := [bulk_log 20, bulk_log 10, bulk_log 30]\<rparr>"

text \<open>The seeded state with one grant: \<open>admin1\<close> holds the capability \<open>p1\<close>.\<close>

definition db_grant :: db where
  "db_grant =
     db0\<lparr>admin_user_permissions :=
           [\<lparr>up_user_id = ''u2'', up_permission_id = ''p1'', granted_by = Some ''u1'',
             up_created_at = 50\<rparr>]\<rparr>"


section \<open>Properties of the audit trigger\<close>

lemma log_admin_action_update_has_no_before:
  "old_values (log_admin_action_values c t (TgUpdate old_row new_row)) = None \<and>
   new_values (log_admin_action_values c t (TgUpdate old_row new_row)) = Some (row_data new_row)"
  by (simp add: log_admin_action_values_def)

lemma log_admin_action_delete_has_before:
  "old_values (log_admin_action_values c t (TgDelete old_row)) = Some (row_data old_row) \<and>
   new_values (log_admin_action_values c t (TgDelete old_row)) = None"
  by (simp add: log_admin_action_values_def)

lemma log_admin_action_insert_has_after:
  "old_values (log_admin_action_values c t (TgInsert new_row)) = None \<and>
   new_values (log_admin_action_values c t (TgInsert new_row)) = Some (row_data new_row)"
  by (simp add: log_admin_action_values_def)

section \<open>Statements and their audit records\<close>

lemma find_id_None: "find (\<lambda>u. f u = i) xs = None \<longleftrightarrow> i \<notin> set (map f xs)"
  by (auto simp: find_None_iff)


lemma find_id_ex: "i \<in> set (map f xs) \<Longrightarrow> \<exists>y. find (\<lambda>u. f u = i) xs = Some y"
  using find_id_None [of f i xs] by (cases "find (\<lambda>u. f u = i) xs") auto


lemma log_admin_action_Inr:
  "log_admin_action c t e d = Inr d' \<Longrightarrow>
   d' = d\<lparr>audit_logs := audit_logs d @ [log_admin_action_values c t e]\<rparr>"
  by (auto simp: log_admin_action_def split: option.splits if_splits)


lemma audit_logs_set_domain_rows [simp]: "audit_logs (set_domain_rows t rs d) = audit_logs d"
  by (cases t) auto

lemma admin_users_set_domain_rows [simp]: "admin_users (set_domain_rows t rs d) = admin_users d"
  by (cases t) auto

lemma domain_rows_set_domain_rows [simp]: "domain_rows t (set_domain_rows t rs d) = rs"
  by (cases t) auto

lemma domain_rows_audit_logs [simp]: "domain_rows t (d\<lparr>audit_logs := x\<rparr>) = domain_rows t d"
  by (cases t) auto

lemma au_id_apply_admin_user_update [simp]: "au_id (apply_admin_user_update p u) = au_id u"
  by (simp add: apply_admin_user_update_def)

lemma au_id_update_updated_at_column [simp]: "au_id (update_updated_at_column c u) = au_id u"
  by (simp add: update_updated_at_column_def)

lemma insert_admin_user_Inr:
  "insert_admin_user c d p = Inr d' \<Longrightarrow>
   d' = d\<lparr>admin_users := admin_users d @ [new_admin_user c p],
          audit_logs := audit_logs d @
            [log_admin_action_values c ''admin_users''
               (TgInsert (tracked_admin_user (new_admin_user c p)))]\<rparr>"
  by (auto simp: insert_admin_user_def Let_def split: option.splits dest!: log_admin_action_Inr)

lemma update_admin_user_Inr:
  "update_admin_user c d i p = Inr d' \<Longrightarrow> find (\<lambda>u. au_id u = i) (admin_users d) = Some ol \<Longrightarrow>
   d' = d\<lparr>admin_users :=
            map (\<lambda>u. if au_id u = i then update_updated_at_column c (apply_admin_user_update p ol)
                      else u) (admin_users d),
          audit_logs := audit_logs d @
            [log_admin_action_values c ''admin_users''
               (TgUpdate (tracked_admin_user ol)
                  (tracked_admin_user (update_updated_at_column c (apply_admin_user_update p ol))))]\<rparr>"
  by (auto simp: update_admin_user_def Let_def split: option.splits dest!: log_admin_action_Inr)



lemma update_row_Inr:
  "update_row c d t i v = Inr d' \<Longrightarrow> find (\<lambda>r. row_id r = i) (domain_rows t d) = Some ol \<Longrightarrow>
   d' = (set_domain_rows t
           (map (\<lambda>r. if row_id r = i then ol\<lparr>row_data := v\<rparr> else r) (domain_rows t d)) d)
          \<lparr>audit_logs := audit_logs d @
             [log_admin_action_values c (TG_TABLE_NAME t) (TgUpdate ol (ol\<lparr>row_data := v\<rparr>))]\<rparr>"
  by (auto simp: update_row_def dest!: log_admin_action_Inr)









lemmas ex_defs = db0_def ctx_unknown_def ctx_superadmin_def insert_thiruvali_def superadmin_def admin1_def
  insert_row_def log_admin_action_def log_admin_action_values_def commit_def audit_key_def
  delete_row_def



text \<open>
  What the audit record of a committed update holds, on every table that carries the
  trigger: no prior state, and the row as it is stored after the update.
\<close>

lemma update_audit_record_snapshots:
  assumes e: "exec c d s = Inr d'" and t: "touches d s" and u: "stmt_op s = ''UPDATE''"
  shows "\<exists>r n. audit_logs d' = audit_logs d @ [r] \<and> old_values r = None \<and>
          new_values r = Some (row_data n) \<and> n \<in> set (stmt_rows d' s) \<and>
          row_id n = stmt_record_id c s"
proof (cases s)
  case (UpdateAdminUser i p)
  with t obtain ol where ol: "find (\<lambda>u. au_id u = i) (admin_users d) = Some ol"
    using find_id_ex [of i au_id "admin_users d"] by auto
  let ?n = "update_updated_at_column c (apply_admin_user_update p ol)"
  from ol have mem: "ol \<in> set (admin_users d)" and i: "au_id ol = i"
    by (auto simp: find_Some_iff in_set_conv_nth)
  then have "?n \<in> set (map (\<lambda>u. if au_id u = i then ?n else u) (admin_users d))"
    by force
  with UpdateAdminUser e i update_admin_user_Inr [OF _ ol, of c p d'] show ?thesis
    by (auto simp: log_admin_action_values_def tracked_admin_user_def
        intro!: exI [of _ "tracked_admin_user ?n"])
next
  case (UpdateRow tb i v)
  with t obtain ol where ol: "find (\<lambda>r. row_id r = i) (domain_rows tb d) = Some ol"
    using find_id_ex [of i row_id "domain_rows tb d"] by auto
  let ?n = "ol\<lparr>row_data := v\<rparr>"
  from ol have mem: "ol \<in> set (domain_rows tb d)" and i: "row_id ol = i"
    by (auto simp: find_Some_iff in_set_conv_nth)
  then have "?n \<in> set (map (\<lambda>r. if row_id r = i then ?n else r) (domain_rows tb d))"
    by force
  with UpdateRow e i update_row_Inr [OF _ ol, of c v d'] show ?thesis
    by (auto simp: log_admin_action_values_def intro!: exI [of _ ?n])
qed (use u in simp_all)

lemmas hs_defs = handleSubmit_def insert_admin_user_def new_admin_user_def admin_user_violation_def
  tracked_admin_user_def to_jsonb_admin_user_def jsonb_text_def jsonb_bool_def
  jsonb_timestamptz_def update_admin_user_def apply_admin_user_update_def
  update_updated_at_column_def

text \<open>
  C1 (the audit record of an update holds the row's state before and after). The code
  does otherwise. Deactivating the seeded user \<open>admin1\<close> (the update \<open>handleToggleStatus\<close>
  sends) commits one audit record whose \<open>old_values\<close> is null, although the prior row is
  bound as \<open>OLD\<close>; \<open>new_values\<close> is the row after the update. The prior state is written
  for DELETE only (\<open>log_admin_action_delete_has_before\<close>), and this holds for every update
  on every tracked table (\<open>update_audit_record_snapshots\<close>).
\<close>

theorem update_audit_record_lacks_before:
  "audit_logs (commit ctx_superadmin db0 (UpdateAdminUser ''u2'' deactivate)) =
     [\<lparr>user_id = Some ''u1'', action = ''UPDATE'', table_name = ''admin_users'',
       record_id = ''u2'',
       old_values = None,
       new_values =
         Some (to_jsonb_admin_user (admin1\<lparr>is_active := Some False, au_updated_at := 100\<rparr>)),
       ip_address = None, user_agent = None, created_at = 100\<rparr>]"
  by (simp add: ex_defs hs_defs deactivate_def)

section \<open>The credential written by the admin-user form\<close>

lemma handleSubmit_create_password_hash:
  "handleSubmit c d None f = (d', ToastSuccess m) \<Longrightarrow>
   admin_users d' = admin_users d @ [new_admin_user c
      \<lparr>ins_username = fd_username f, ins_email = fd_email f,
       ins_password_hash = ''$2b$10$'' @ fd_password f, ins_role = fd_role f\<rparr>]"
  by (auto simp: handleSubmit_def split: if_splits sum.splits dest!: insert_admin_user_Inr)

text \<open>
  C5 (the stored credential hash never is or contains the plaintext password). The code
  does otherwise: creating the user \<open>alice\<close> with password \<open>secret\<close> succeeds and stores
  \<open>$2b$10$secret\<close> in \<open>password_hash\<close>, the fixed prefix followed by the password itself;
  editing a user with a password supplied stores the same. No hash is computed
  (\<open>handleSubmit_create_password_hash\<close> gives the stored row for every successful create).
\<close>

theorem handleSubmit_stores_plaintext_password:
  "snd (handleSubmit ctx_superadmin db0 None form_alice) =
     ToastSuccess ''User created successfully'' \<and>
   map password_hash (admin_users (fst (handleSubmit ctx_superadmin db0 None form_alice))) =
     [''$2b$10$example_hash_for_password123'', ''$2b$10$example_hash_for_admin123'',
      ''$2b$10$'' @ fd_password form_alice] \<and>
   map password_hash
     (admin_users (fst (handleSubmit ctx_superadmin db0 (Some ''u2'') form_alice))) =
     [''$2b$10$example_hash_for_password123'', ''$2b$10$'' @ fd_password form_alice] \<and>
   fd_password form_alice = ''secret''"
  by (simp add: hs_defs ex_defs form_alice_def)

section \<open>Who the policies let through\<close>







section \<open>The audit-log viewer: fetch limit, filters, export\<close>

lemma created_at_embed [simp]: "created_at (embed_admin_users us l) = created_at l"
  by (simp add: embed_admin_users_def audit_log.defs)

lemma order_created_at_desc_sorted:
  "sorted_wrt (\<lambda>x y. created_at y \<le> created_at x) (order_created_at_desc ls)"
proof -
  have "sorted (map created_at (sort_key created_at ls))" by simp
  then have "sorted_wrt (\<lambda>x y. created_at x \<le> created_at y) (sort_key created_at ls)"
    by (simp add: sorted_map)
  then show ?thesis by (simp add: order_created_at_desc_def sorted_wrt_rev)
qed

lemma length_order_created_at_desc [simp]:
  "length (order_created_at_desc ls) = length ls"
  by (simp add: order_created_at_desc_def)

lemma set_order_created_at_desc [simp]:
  "set (order_created_at_desc ls) = set ls"
  by (simp add: order_created_at_desc_def)

lemma subseq_filter_if:
  "subseq xs logs \<Longrightarrow> subseq (if c then filter P xs else xs) logs"
  by (auto intro: subseq_filter_left subseq_order.trans)

lemma subseq_filter_option:
  "subseq xs logs \<Longrightarrow> subseq (case v of None \<Rightarrow> xs | Some a \<Rightarrow> filter (P a) xs) logs"
  by (cases v) (auto intro: subseq_filter_left subseq_order.trans)

lemma applyFilters_subseq: "subseq (applyFilters logs f) logs"
  unfolding applyFilters_def Let_def
  by (intro subseq_filter_if subseq_filter_option) simp

lemma older_not_in_take:
  assumes s: "sorted_wrt (\<lambda>x y. created_at y \<le> created_at x) xs"
    and n: "n < length xs" and r: "created_at r < created_at (xs ! n)"
  shows "r \<notin> set (take (Suc n) xs)"
proof
  assume "r \<in> set (take (Suc n) xs)"
  then obtain i where i: "i < Suc n" "i < length xs" "xs ! i = r"
    by (auto simp: in_set_conv_nth)
  show False
  proof (cases "i = n")
    case True
    with i r show False by simp
  next
    case False
    with i have "i < n" by simp
    from sorted_wrt_nth_less [OF s this n] i r show False by simp
  qed
qed

lemma older_not_fetched:
  assumes "1000 \<le> length (audit_logs d)"
    and "created_at r < created_at (order_created_at_desc (select_audit_logs d) ! 999)"
  shows "r \<notin> set (fetchAuditLogs d)"
proof -
  have "999 < length (order_created_at_desc (select_audit_logs d))"
    using assms(1) by (simp add: select_audit_logs_def)
  from older_not_in_take [OF order_created_at_desc_sorted this assms(2)]
  show ?thesis by (simp add: fetchAuditLogs_def)
qed

lemma applyFilters_date_filters:
  "applyFilters logs (date_filters a b) = filter (in_date_range a b) logs"
  by (auto simp: applyFilters_def date_filters_def in_date_range_def intro!: filter_cong)

lemma fetchAuditLogs_all:
  "length (audit_logs d) \<le> 1000 \<Longrightarrow> set (fetchAuditLogs d) = set (select_audit_logs d)"
  by (simp add: fetchAuditLogs_def select_audit_logs_def)



lemma sorted_created_at_bulk:
  "sorted (map created_at (map (embed_admin_users us) (map bulk_log [0..<n])))"
proof -
  have "map created_at (map (embed_admin_users us) (map bulk_log [0..<n])) = map int [0..<n]"
    by (simp add: bulk_log_def)
  moreover have "sorted (map int [0..<n])"
    by (simp add: sorted_map sorted_wrt_iff_nth_less)
  ultimately show ?thesis by (simp only:)
qed

lemma order_created_at_desc_bulk:
  "order_created_at_desc (select_audit_logs db_bulk) =
   rev (map (embed_admin_users (admin_users db_bulk)) (map bulk_log [0..<1001]))"
  using sort_key_id_if_sorted [OF sorted_created_at_bulk [of "admin_users db_bulk" 1001]]
  by (simp add: order_created_at_desc_def select_audit_logs_def db_bulk_def)

lemma thousandth_newest_bulk:
  "created_at (order_created_at_desc (select_audit_logs db_bulk) ! 999) = 1"
proof -
  let ?xs = "map (embed_admin_users (admin_users db_bulk)) (map bulk_log [0..<1001])"
  have "rev ?xs ! 999 = ?xs ! (length ?xs - Suc 999)"
    by (rule rev_nth) simp
  also have "\<dots> = ?xs ! 1" by simp
  also have "\<dots> = embed_admin_users (admin_users db_bulk) (bulk_log 1)" by simp
  finally show ?thesis by (simp add: order_created_at_desc_bulk bulk_log_def)
qed

lemma bulk_log_0_selected:
  "embed_admin_users (admin_users db_bulk) (bulk_log 0) \<in> set (select_audit_logs db_bulk)"
  by (simp add: select_audit_logs_def db_bulk_def)

text \<open>
  C10 (the list is the 1000 newest records; filters and export see nothing else).
  \<open>fetchAuditLogs\<close> yields at most 1000 rows, the first 1000 of the table in newest-first
  order. Whatever the filters, \<open>applyFilters\<close> yields a subsequence of them, and
  \<open>exportLogs\<close> writes the header and one line per row of that subsequence. Once the
  table holds 1000 records, a record older than the 1000th newest is neither fetched nor
  returned by any filter.
\<close>

theorem fetch_limit_bounds_filters_and_export:
  "length (fetchAuditLogs d) \<le> 1000 \<and>
   fetchAuditLogs d = take 1000 (order_created_at_desc (select_audit_logs d)) \<and>
   subseq (applyFilters (fetchAuditLogs d) f) (fetchAuditLogs d) \<and>
   exportLogs toISOString (applyFilters (fetchAuditLogs d) f) =
     join [CHR 0x0A]
       (''Timestamp,User,Action,Table,Record ID,IP Address''
        # map (csv_line toISOString) (applyFilters (fetchAuditLogs d) f)) \<and>
   (1000 \<le> length (audit_logs d) \<and>
    created_at r < created_at (order_created_at_desc (select_audit_logs d) ! 999) \<longrightarrow>
      r \<notin> set (fetchAuditLogs d) \<and> r \<notin> set (applyFilters (fetchAuditLogs d) f))"
proof (intro conjI impI)
  show "length (fetchAuditLogs d) \<le> 1000" by (simp add: fetchAuditLogs_def)
  show "fetchAuditLogs d = take 1000 (order_created_at_desc (select_audit_logs d))"
    by (simp add: fetchAuditLogs_def)
  show "subseq (applyFilters (fetchAuditLogs d) f) (fetchAuditLogs d)"
    by (rule applyFilters_subseq)
  show "exportLogs toISOString (applyFilters (fetchAuditLogs d) f) =
     join [CHR 0x0A]
       (''Timestamp,User,Action,Table,Record ID,IP Address''
        # map (csv_line toISOString) (applyFilters (fetchAuditLogs d) f))"
    by (simp add: exportLogs_def)
next
  assume a: "1000 \<le> length (audit_logs d) \<and>
    created_at r < created_at (order_created_at_desc (select_audit_logs d) ! 999)"
  then show nf: "r \<notin> set (fetchAuditLogs d)" using older_not_fetched [of d r] by blast
  from list_emb_set [OF applyFilters_subseq [of "fetchAuditLogs d" f], of r] nf
  show "r \<notin> set (applyFilters (fetchAuditLogs d) f)" by blast
qed

theorem fetch_limit_bounds_filters_and_export_witness:
  "1000 \<le> length (audit_logs db_bulk) \<and>
   embed_admin_users (admin_users db_bulk) (bulk_log 0) \<in> set (select_audit_logs db_bulk) \<and>
   embed_admin_users (admin_users db_bulk) (bulk_log 0) \<notin> set (fetchAuditLogs db_bulk) \<and>
   embed_admin_users (admin_users db_bulk) (bulk_log 0)
     \<notin> set (applyFilters (fetchAuditLogs db_bulk) (date_filters 0 1000)) \<and>
   length (fetchAuditLogs db_bulk) \<le> 1000"
proof -
  let ?r = "embed_admin_users (admin_users db_bulk) (bulk_log 0)"
  have h1: "1000 \<le> length (audit_logs db_bulk)" by (simp add: db_bulk_def)
  have h2: "created_at ?r < created_at (order_created_at_desc (select_audit_logs db_bulk) ! 999)"
    by (simp add: thousandth_newest_bulk bulk_log_def)
  from fetch_limit_bounds_filters_and_export [of db_bulk "date_filters 0 1000" _ ?r] h1 h2
    bulk_log_0_selected
  show ?thesis by blast
qed

text \<open>
  C9 as stated (the date filter returns exactly the records of the interval) fails once
  the table holds more than 1000 records: of 1001 records written at the instants 0 to
  1000, the one written at 0 lies in the interval from 0 to 1000 and is not returned.
\<close>

theorem date_filter_misses_older_records:
  "in_date_range 0 1000 (embed_admin_users (admin_users db_bulk) (bulk_log 0)) \<and>
   embed_admin_users (admin_users db_bulk) (bulk_log 0) \<in> set (select_audit_logs db_bulk) \<and>
   embed_admin_users (admin_users db_bulk) (bulk_log 0)
     \<notin> set (applyFilters (fetchAuditLogs db_bulk) (date_filters 0 1000))"
proof -
  let ?r = "embed_admin_users (admin_users db_bulk) (bulk_log 0)"
  have "1000 \<le> length (audit_logs db_bulk)" by (simp add: db_bulk_def)
  moreover have "created_at ?r < created_at (order_created_at_desc (select_audit_logs db_bulk) ! 999)"
    by (simp add: thousandth_newest_bulk bulk_log_def)
  ultimately have "?r \<notin> set (fetchAuditLogs db_bulk)" by (rule older_not_fetched)
  then have "?r \<notin> set (applyFilters (fetchAuditLogs db_bulk) (date_filters 0 1000))"
    by (simp add: applyFilters_date_filters)
  moreover have "in_date_range 0 1000 ?r" by (simp add: in_date_range_def bulk_log_def)
  ultimately show ?thesis using bulk_log_0_selected by simp
qed

text \<open>
  C9, amended (the date filter over what was fetched). With only the two dates set,
  \<open>applyFilters\<close> returns exactly the fetched rows (the at most 1000 newest) whose
  \<open>created_at\<close> lies in the closed interval, both ends included, newest first; when the
  table holds at most 1000 records these are all the records of the interval.
\<close>

theorem date_filter_on_fetched:
  "applyFilters (fetchAuditLogs d) (date_filters a b) =
     filter (in_date_range a b) (fetchAuditLogs d) \<and>
   sorted_wrt (\<lambda>x y. created_at y \<le> created_at x)
     (applyFilters (fetchAuditLogs d) (date_filters a b)) \<and>
   (length (audit_logs d) \<le> 1000 \<longrightarrow>
      set (applyFilters (fetchAuditLogs d) (date_filters a b)) =
        {r \<in> set (select_audit_logs d). in_date_range a b r})"
proof (intro conjI impI)
  show "applyFilters (fetchAuditLogs d) (date_filters a b) =
     filter (in_date_range a b) (fetchAuditLogs d)"
    by (rule applyFilters_date_filters)
  have "sorted_wrt (\<lambda>x y. created_at y \<le> created_at x) (fetchAuditLogs d)"
    unfolding fetchAuditLogs_def by (rule sorted_wrt_take [OF order_created_at_desc_sorted])
  then show "sorted_wrt (\<lambda>x y. created_at y \<le> created_at x)
     (applyFilters (fetchAuditLogs d) (date_filters a b))"
    by (simp add: applyFilters_date_filters sorted_wrt_filter)
next
  assume "length (audit_logs d) \<le> 1000"
  then show "set (applyFilters (fetchAuditLogs d) (date_filters a b)) =
        {r \<in> set (select_audit_logs d). in_date_range a b r}"
    by (auto simp: applyFilters_date_filters fetchAuditLogs_all)
qed

theorem date_filter_on_fetched_witness:
  "length (audit_logs db_three) \<le> 1000 \<and>
   map created_at (select_audit_logs db_three) = [20, 10, 30] \<and>
   map created_at (applyFilters (fetchAuditLogs db_three) (date_filters 15 30)) = [30, 20]"
  using date_filter_on_fetched [of db_three 15 30]
  by (simp add: db_three_def bulk_log_def fetchAuditLogs_def select_audit_logs_def
      order_created_at_desc_def in_date_range_def)


section \<open>Grants: replacing a permission set\<close>

lemma insert_permission_rows_Inr:
  "insert_permission_rows c d rows ps = Inr rows' \<Longrightarrow>
   rows' = rows @ map (new_permission_row c) ps"
proof (induction ps arbitrary: rows)
  case Nil
  then show ?case by simp
next
  case (Cons p ps)
  from Cons.prems
  have "insert_permission_rows c d (rows @ [new_permission_row c p]) ps = Inr rows'"
    by (simp split: if_splits)
  from Cons.IH [OF this] show ?case by simp
qed

lemma grant_key_new_permission_row [simp]:
  "grant_key (new_permission_row c p) = (upi_user_id p, upi_permission_id p)"
  by (simp add: grant_key_def new_permission_row_def)



lemma grants_of_delete_same [simp]: "grants_of (delete_user_permissions d i) i = []"
  by (simp add: grants_of_def delete_user_permissions_def)

lemma grants_of_delete_other [simp]:
  "j \<noteq> i \<Longrightarrow> grants_of (delete_user_permissions d i) j = grants_of d j"
  by (auto simp: grants_of_def delete_user_permissions_def intro!: arg_cong [where f = "map up_permission_id"] filter_cong)

lemma filter_new_rows_same:
  "filter (\<lambda>g. up_user_id g = i)
     (map (new_permission_row c) (map (\<lambda>permId. \<lparr>upi_user_id = i, upi_permission_id = permId\<rparr>) sel)) =
   map (new_permission_row c) (map (\<lambda>permId. \<lparr>upi_user_id = i, upi_permission_id = permId\<rparr>) sel)"
  by (induction sel) (auto simp: new_permission_row_def)

lemma filter_new_rows_other:
  "j \<noteq> i \<Longrightarrow> filter (\<lambda>g. up_user_id g = j)
     (map (new_permission_row c) (map (\<lambda>permId. \<lparr>upi_user_id = i, upi_permission_id = permId\<rparr>) sel)) = []"
  by (induction sel) (auto simp: new_permission_row_def)

lemma permission_ids_new_rows:
  "map up_permission_id
     (map (new_permission_row c) (map (\<lambda>permId. \<lparr>upi_user_id = i, upi_permission_id = permId\<rparr>) sel)) = sel"
  by (induction sel) (auto simp: new_permission_row_def)

lemma insert_after_delete_Inr:
  assumes "insert_user_permissions c (delete_user_permissions d i)
     (map (\<lambda>permId. \<lparr>upi_user_id = i, upi_permission_id = permId\<rparr>) sel) = Inr d2"
  shows "grants_of d2 i = sel" and "j \<noteq> i \<Longrightarrow> grants_of d2 j = grants_of d j"
proof -
  let ?ps = "map (\<lambda>permId. \<lparr>upi_user_id = i, upi_permission_id = permId\<rparr>) sel"
  let ?d1 = "delete_user_permissions d i"
  from assms obtain rows where r: "insert_permission_rows c ?d1 (admin_user_permissions ?d1) ?ps = Inr rows"
    and d2: "d2 = ?d1\<lparr>admin_user_permissions := rows\<rparr>"
    by (auto simp: insert_user_permissions_def split: sum.splits)
  from insert_permission_rows_Inr [OF r]
  have rows: "rows = admin_user_permissions ?d1 @ map (new_permission_row c) ?ps" .
  have "grants_of d2 i = grants_of ?d1 i @ sel"
    unfolding d2 rows grants_of_def
    by (simp add: filter_new_rows_same permission_ids_new_rows del: map_map)
  then show "grants_of d2 i = sel" by simp
  assume j: "j \<noteq> i"
  have "grants_of d2 j = grants_of ?d1 j"
    unfolding d2 rows grants_of_def
    by (simp add: filter_new_rows_other [OF j] del: map_map)
  with j show "grants_of d2 j = grants_of d j" by simp
qed

text \<open>
  C3, amended (what a reader can see of a permission-set replace). The replace is two
  statements that commit one after the other, so it is not atomic. With the delete
  executed, every state the function commits shows the identity either with no grants
  (after the delete, and for good when the insert fails) or with exactly the submitted
  set (after the insert), never with part of the new set or a mix of old and new; the
  grants of every other identity are as before; on the success toast the final state
  holds the submitted set, on the failure toast it holds none.
\<close>

theorem permission_replace_visible_states:
  "saveUserPermissions c d (Some i) sel = (states, t) \<longrightarrow>
     states \<noteq> [] \<and> grants_of (hd states) i = [] \<and>
     (\<forall>s\<in>set states.
        (grants_of s i = [] \<or> grants_of s i = sel) \<and>
        (\<forall>j. j \<noteq> i \<longrightarrow> grants_of s j = grants_of d j)) \<and>
     (t = Some (ToastSuccess ''Permissions updated successfully'') \<longrightarrow>
        grants_of (last states) i = sel) \<and>
     (t = Some (ToastError ''Failed to save permissions'') \<longrightarrow>
        grants_of (last states) i = [])"
proof (cases "sel = []")
  case True
  then show ?thesis by (auto simp: saveUserPermissions_def)
next
  case False
  let ?ins = "insert_user_permissions c (delete_user_permissions d i)
     (map (\<lambda>permId. \<lparr>upi_user_id = i, upi_permission_id = permId\<rparr>) sel)"
  show ?thesis
  proof (cases ?ins)
    case (Inl e)
    with False show ?thesis by (auto simp: saveUserPermissions_def)
  next
    case (Inr d2)
    from insert_after_delete_Inr [OF Inr] Inr False show ?thesis
      by (auto simp: saveUserPermissions_def)
  qed
qed


lemmas grant_defs = saveUserPermissions_def delete_user_permissions_def insert_user_permissions_def
  new_permission_row_def grant_key_def grants_of_def grant_count_def db_grant_def

theorem permission_replace_visible_states_witness:
  "grants_of db_grant ''u2'' = [''p1''] \<and>
   map admin_user_permissions
     (fst (saveUserPermissions ctx_superadmin db_grant (Some ''u2'') [''p1'', ''p2''])) =
     [[],
      [\<lparr>up_user_id = ''u2'', up_permission_id = ''p1'', granted_by = None, up_created_at = 100\<rparr>,
       \<lparr>up_user_id = ''u2'', up_permission_id = ''p2'', granted_by = None, up_created_at = 100\<rparr>]] \<and>
   snd (saveUserPermissions ctx_superadmin db_grant (Some ''u2'') [''p1'', ''p2'']) =
     Some (ToastSuccess ''Permissions updated successfully'')"
  using permission_replace_visible_states [of ctx_superadmin db_grant "''u2''" "[''p1'', ''p2'']"]
  by (simp add: grant_defs ex_defs)

text \<open>
  C3 as stated (a reader sees the full old set or the full new set, also after a failure
  between the delete and the insert) fails. \<open>admin1\<close> holds \<open>p1\<close>; re-submitting \<open>p1\<close>
  together with a capability that no longer exists deletes the grant, fails on the insert
  and leaves \<open>admin1\<close> without \<open>p1\<close>, the capability the caller meant to keep. And when
  the replace by \<open>p2\<close> succeeds, the state committed in between holds no grant at all.
\<close>

theorem permission_replace_not_atomic:
  "grants_of db_grant ''u2'' = [''p1''] \<and>
   snd (saveUserPermissions ctx_superadmin db_grant (Some ''u2'') [''p1'', ''p9'']) =
     Some (ToastError ''Failed to save permissions'') \<and>
   map admin_user_permissions
     (fst (saveUserPermissions ctx_superadmin db_grant (Some ''u2'') [''p1'', ''p9''])) = [[]] \<and>
   grants_of (hd (fst (saveUserPermissions ctx_superadmin db_grant (Some ''u2'') [''p2'']))) ''u2''
     = [] \<and>
   grants_of (last (fst (saveUserPermissions ctx_superadmin db_grant (Some ''u2'') [''p2''])))
     ''u2'' = [''p2'']"
  by (simp add: grant_defs ex_defs)









section \<open>Settings: upsert and batch save\<close>




lemma setting_key_updated [simp]:
  "setting_key (update_updated_at_column_setting c (do_update_set u s)) = us_setting_key u"
  by (simp add: update_updated_at_column_setting_def do_update_set_def)

lemma setting_value_updated [simp]:
  "setting_value (update_updated_at_column_setting c (do_update_set u s)) =
   Some (us_setting_value u)"
  by (simp add: update_updated_at_column_setting_def do_update_set_def)

























end
